theory Spec2Isabelle
  imports Main "HOL-Library.Word"
begin

section \<open>JavaScript values\<close>

text \<open>
  The client of \<^verbatim>\<open>src/jira-client.js\<close> moves JavaScript values between its caller and
  the HTTP library: option objects, request bodies, parsed JSON responses. The values
  modelled are
  \<^item> \<^verbatim>\<open>undefined\<close>, \<^verbatim>\<open>null\<close>, the booleans and the strings;
  \<^item> the numbers that are integers from \<open>-2\<^sup>5\<^sup>3\<close> to \<open>2\<^sup>5\<^sup>3 - 1\<close>, a 54-bit word read as
    a signed integer: each is a number of JavaScript exactly, and prints as its decimal
    numeral (the client itself writes 3, 100, 200 and 1000);
  \<^item> arrays, with no property of their own besides their elements;
  \<^item> objects whose prototype is \<^verbatim>\<open>Object.prototype\<close>, as an object literal or
    \<^verbatim>\<open>JSON.parse\<close> makes them: the list of their own properties, which have strings as
    names. A lookup takes the first binding of a name;
  \<^item> the one function the client can come to hold, \<^verbatim>\<open>Array.prototype.values\<close>.
\<close>

datatype jsval =
    JUndefined
  | JNull
  | JBool bool
  | JNum "54 word"
  | JStr string
  | JArr "jsval list"
  | JObj "(string \<times> jsval) list"
  | JArrayValues

text \<open>
  What a call can end with when it does not return: the \<^verbatim>\<open>TypeError\<close> the language
  raises on reading a property of \<^verbatim>\<open>undefined\<close> or \<^verbatim>\<open>null\<close> and on converting to a
  string an object that has no conversion, or the value the HTTP library rejected its
  promise with (a network failure, a response outside 2xx). A method
  of the class is \<^verbatim>\<open>async\<close>: everything raised in it, while binding its parameter or in
  its body, rejects the promise it returns, and \<open>Inl e\<close> below is that rejection.
\<close>

datatype error = TypeError | HttpError jsval

definition nullish :: "jsval \<Rightarrow> bool" where
  "nullish v = (v = JUndefined \<or> v = JNull)"

text \<open>An own property of an object, \<^verbatim>\<open>undefined\<close> when there is none.\<close>

definition own :: "(string \<times> jsval) list \<Rightarrow> string \<Rightarrow> jsval" where
  "own ps k = (case map_of ps k of None \<Rightarrow> JUndefined | Some v \<Rightarrow> v)"

text \<open>
  \<^verbatim>\<open>v.k\<close>, and the read of \<^verbatim>\<open>k\<close> in a destructuring pattern \<^verbatim>\<open>{ k } = v\<close>: a
  \<^verbatim>\<open>TypeError\<close> on \<^verbatim>\<open>undefined\<close> and \<^verbatim>\<open>null\<close>, the property otherwise. It covers the
  names the client reads: \<^verbatim>\<open>host user token version categoryId projectKey jql fields role
  groupname values issues actors\<close>. Of these only \<^verbatim>\<open>values\<close> is inherited from a
  prototype, by arrays.
\<close>

fun member :: "jsval \<Rightarrow> string \<Rightarrow> error + jsval" where
  "member JUndefined k = Inl TypeError"
| "member JNull k = Inl TypeError"
| "member (JObj ps) k = Inr (own ps k)"
| "member (JArr xs) k = Inr (if k = ''values'' then JArrayValues else JUndefined)"
| "member (JBool b) k = Inr JUndefined"
| "member (JNum n) k = Inr JUndefined"
| "member (JStr s) k = Inr JUndefined"
| "member JArrayValues k = Inr JUndefined"

text \<open>
  The default of a destructuring pattern, \<^verbatim>\<open>{ k = d }\<close>: taken when the property is
  \<^verbatim>\<open>undefined\<close>, and only then.
\<close>

definition default_to :: "jsval \<Rightarrow> jsval \<Rightarrow> jsval" where
  "default_to v d = (if v = JUndefined then d else v)"

subsection \<open>Template literals\<close>

fun digits :: "nat \<Rightarrow> string" where
  "digits n =
     (if n < 10 then [''0123456789'' ! n]
      else digits (n div 10) @ [''0123456789'' ! (n mod 10)])"

declare digits.simps [simp del]

text \<open>
  \<^verbatim>\<open>${v}\<close> in a template literal: the conversion of \<^verbatim>\<open>v\<close> to a string, which can
  raise.
  \<^item> An object is converted by its \<^verbatim>\<open>toString\<close>, then its \<^verbatim>\<open>valueOf\<close>, each used only
    if it is a function, and the first result that is not an object is taken. With no
    own \<^verbatim>\<open>toString\<close> the inherited one answers \<^verbatim>\<open>[object Object]\<close>. An own
    \<^verbatim>\<open>toString\<close> is here either no function or \<^verbatim>\<open>Array.prototype.values\<close>, which
    returns an iterator, an object; the same holds of an own \<^verbatim>\<open>valueOf\<close>, and the
    inherited \<^verbatim>\<open>valueOf\<close> returns the object itself. So an object with an own
    \<^verbatim>\<open>toString\<close> has no conversion: a \<^verbatim>\<open>TypeError\<close>.
  \<^item> An array is its elements joined by commas, \<^verbatim>\<open>undefined\<close> and \<^verbatim>\<open>null\<close> elements
    empty, the others converted in turn.
  \<^item> A number is its decimal numeral.
\<close>

fun to_string :: "jsval \<Rightarrow> error + string"
  and join_elems :: "jsval list \<Rightarrow> error + string" where
  "to_string JUndefined = Inr ''undefined''"
| "to_string JNull = Inr ''null''"
| "to_string (JBool b) = Inr (if b then ''true'' else ''false'')"
| "to_string (JNum n) =
     Inr (if sint n < 0 then ''-'' @ digits (nat (- sint n)) else digits (nat (sint n)))"
| "to_string (JStr s) = Inr s"
| "to_string (JArr xs) = join_elems xs"
| "to_string (JObj ps) =
     (if map_of ps ''toString'' = None then Inr ''[object Object]'' else Inl TypeError)"
| "to_string JArrayValues = Inr ''function values() { [native code] }''"
| "join_elems [] = Inr []"
| "join_elems [x] = (if x = JUndefined \<or> x = JNull then Inr [] else to_string x)"
| "join_elems (x # y # ys) =
     (case (if x = JUndefined \<or> x = JNull then Inr [] else to_string x) of
        Inl e \<Rightarrow> Inl e
      | Inr s \<Rightarrow>
         (case join_elems (y # ys) of
            Inl e \<Rightarrow> Inl e
          | Inr t \<Rightarrow> Inr (s @ '','' @ t)))"

section \<open>The HTTP library\<close>

text \<open>
  \<^verbatim>\<open>axios\<close> is not part of the repository. Its interface, as the client uses it:
  \<^verbatim>\<open>axios.create(config)\<close> makes a client from a base URL and credentials;
  \<^verbatim>\<open>client.get(url, config)\<close> and \<^verbatim>\<open>client.post(url, data, config)\<close> send one request and
  return a promise of the response, whose \<^verbatim>\<open>data\<close> is the parsed body. An argument the
  caller leaves out is \<^verbatim>\<open>undefined\<close>. The query parameters of a request are the \<^verbatim>\<open>params\<close>
  property of its config; no other property of the config becomes one.
\<close>

record basic_auth =
  username :: jsval
  password :: jsval

record axios_config =
  baseURL :: string
  auth :: basic_auth

datatype http_call =
    Get string jsval
  | Post string jsval jsval

record response =
  data :: jsval
  status :: nat

type_synonym http = "axios_config \<Rightarrow> http_call \<Rightarrow> error + response"

definition config_params :: "jsval \<Rightarrow> jsval" where
  "config_params config = (case config of JObj ps \<Rightarrow> own ps ''params'' | _ \<Rightarrow> JUndefined)"

fun query_params :: "http_call \<Rightarrow> jsval" where
  "query_params (Get url config) = config_params config"
| "query_params (Post url body config) = config_params config"

section \<open>The class Jira\<close>

record jira =
  version :: jsval
  baseClient :: axios_config

definition constructor :: "jsval \<Rightarrow> error + jira" where
  "constructor options =
     (case member options ''host'' of
        Inl e \<Rightarrow> Inl e
      | Inr host \<Rightarrow>
         (case member options ''user'' of
            Inl e \<Rightarrow> Inl e
          | Inr user \<Rightarrow>
             (case member options ''token'' of
                Inl e \<Rightarrow> Inl e
              | Inr token \<Rightarrow>
                 (case member options ''version'' of
                    Inl e \<Rightarrow> Inl e
                  | Inr v \<Rightarrow>
                     (let version = default_to v (JNum 3) in
                      (case to_string host of
                         Inl e \<Rightarrow> Inl e
                       | Inr h \<Rightarrow>
                          (case to_string version of
                             Inl e \<Rightarrow> Inl e
                           | Inr n \<Rightarrow>
                              Inr \<lparr>version = version,
                                   baseClient =
                                     \<lparr>baseURL = (''https://'' @ h)
                                                  @ (''.atlassian.net/rest/api/'' @ n),
                                      auth = \<lparr>username = user,
                                              password = token\<rparr>\<rparr>\<rparr>)))))))"

text \<open>
  A method runs against the object it is called on and the requests sent so far. It never
  assigns to a field, so the only thing it can change is the list of requests.
\<close>

record world =
  client :: jira
  issued :: "http_call list"

text \<open>
  \<^verbatim>\<open>this.baseClient.get(...)\<close> or \<^verbatim>\<open>.post(...)\<close>: the request goes out through the
  client's \<^verbatim>\<open>baseClient\<close> and is appended to the requests sent.
\<close>

definition send :: "http \<Rightarrow> http_call \<Rightarrow> world \<Rightarrow> (error + response) \<times> world" where
  "send http call w = (http (baseClient (client w)) call, w\<lparr>issued := issued w @ [call]\<rparr>)"

text \<open>
  \<^verbatim>\<open>const response = await p\<close> followed by the rest of the body: no method has a
  \<^verbatim>\<open>try\<close>, so a rejected \<^verbatim>\<open>p\<close> ends the method with the same rejection, and a fulfilled
  one hands its response to the rest.
\<close>

definition await :: "(error + response) \<times> world \<Rightarrow> (response \<Rightarrow> error + jsval)
    \<Rightarrow> (error + jsval) \<times> world" where
  "await p rest =
     (case fst p of
        Inl e \<Rightarrow> (Inl e, snd p)
      | Inr response \<Rightarrow> (rest response, snd p))"

definition projects :: "http \<Rightarrow> jsval \<Rightarrow> world \<Rightarrow> (error + jsval) \<times> world" where
  "projects http options w =
     (case member options ''categoryId'' of
        Inl e \<Rightarrow> (Inl e, w)
      | Inr c \<Rightarrow>
         (let categoryId = default_to c (JNum 1000);
              maxResults = JNum 200
          in await
               (send http
                  (Get ''project/search''
                     (JObj [(''params'',
                        JObj [(''categoryId'', categoryId), (''maxResults'', maxResults)])]))
                  w)
               (\<lambda>response. member (data response) ''values'')))"

definition project :: "http \<Rightarrow> jsval \<Rightarrow> world \<Rightarrow> (error + jsval) \<times> world" where
  "project http options w =
     (case member options ''projectKey'' of
        Inl e \<Rightarrow> (Inl e, w)
      | Inr projectKey \<Rightarrow>
         (case to_string projectKey of
            Inl e \<Rightarrow> (Inl e, w)
          | Inr key \<Rightarrow>
             await
               (send http
                  (Get (''project/'' @ key)
                     (JObj [(''expand'', JStr ''issueTypes,lead,description'')]))
                  w)
               (\<lambda>response. Inr (data response))))"

definition search :: "http \<Rightarrow> jsval \<Rightarrow> world \<Rightarrow> (error + jsval) \<times> world" where
  "search http options w =
     (case member options ''jql'' of
        Inl e \<Rightarrow> (Inl e, w)
      | Inr jql \<Rightarrow>
         (case member options ''fields'' of
            Inl e \<Rightarrow> (Inl e, w)
          | Inr f \<Rightarrow>
             (let fields = default_to f
                    (JArr [JStr ''summary'', JStr ''status'', JStr ''assignee'',
                           JStr ''timetracking''])
              in await
                   (send http
                      (Post ''search''
                         (JObj [(''jql'', jql), (''maxResults'', JNum 100), (''fields'', fields)])
                         JUndefined)
                      w)
                   (\<lambda>response. member (data response) ''issues''))))"

definition projectRoles :: "http \<Rightarrow> jsval \<Rightarrow> world \<Rightarrow> (error + jsval) \<times> world" where
  "projectRoles http options w =
     (case member options ''projectKey'' of
        Inl e \<Rightarrow> (Inl e, w)
      | Inr projectKey \<Rightarrow>
         (case member options ''role'' of
            Inl e \<Rightarrow> (Inl e, w)
          | Inr role \<Rightarrow>
             (case to_string projectKey of
                Inl e \<Rightarrow> (Inl e, w)
              | Inr key \<Rightarrow>
                 (case to_string role of
                    Inl e \<Rightarrow> (Inl e, w)
                  | Inr name \<Rightarrow>
                     await
                       (send http
                          (Get ((''project/'' @ key) @ (''/role/'' @ name)) JUndefined)
                          w)
                       (\<lambda>response. member (data response) ''actors'')))))"

definition usersByGroup :: "http \<Rightarrow> jsval \<Rightarrow> world \<Rightarrow> (error + jsval) \<times> world" where
  "usersByGroup http options w =
     (case member options ''groupname'' of
        Inl e \<Rightarrow> (Inl e, w)
      | Inr groupname \<Rightarrow>
         await
           (send http
              (Get ''group/member''
                 (JObj [(''params'',
                    JObj [(''groupname'', groupname), (''maxResults'', JNum 200),
                          (''includeInactiveUsers'', JBool True)])]))
              w)
           (\<lambda>response. member (data response) ''values''))"

definition categories :: "http \<Rightarrow> world \<Rightarrow> (error + jsval) \<times> world" where
  "categories http w =
     await (send http (Get ''projectCategory'' JUndefined) w) (\<lambda>response. Inr JUndefined)"

text \<open>
  A call \<^verbatim>\<open>jira[m](arg)\<close> of one of the six methods. \<^verbatim>\<open>categories\<close> declares no
  parameter and ignores what it is given.
\<close>

datatype jira_method = Projects | Project | Search | ProjectRoles | UsersByGroup | Categories

fun invoke :: "jira_method \<Rightarrow> http \<Rightarrow> jsval \<Rightarrow> world \<Rightarrow> (error + jsval) \<times> world" where
  "invoke Projects http arg w = projects http arg w"
| "invoke Project http arg w = project http arg w"
| "invoke Search http arg w = search http arg w"
| "invoke ProjectRoles http arg w = projectRoles http arg w"
| "invoke UsersByGroup http arg w = usersByGroup http arg w"
| "invoke Categories http arg w = categories http w"

section \<open>Concrete clients and HTTP layers\<close>

text \<open>
  The client of the class comment's example,
  \<^verbatim>\<open>new Jira({ host: 'yourhost', user: 'jhn@doe.com', token: 'secret' })\<close>, before it has
  sent anything; an HTTP layer that answers every request with status 200 and a given
  body; and one that rejects every request with a given error.
\<close>

definition example_jira :: jira where
  "example_jira =
     \<lparr>version = JNum 3,
      baseClient =
        \<lparr>baseURL = ''https://yourhost.atlassian.net/rest/api/3'',
         auth = \<lparr>username = JStr ''jhn@doe.com'', password = JStr ''secret''\<rparr>\<rparr>\<rparr>"

definition fresh :: "jira \<Rightarrow> world" where
  "fresh j = \<lparr>client = j, issued = []\<rparr>"

definition answering :: "jsval \<Rightarrow> http" where
  "answering body config call = Inr \<lparr>data = body, status = 200\<rparr>"

definition failing :: "error \<Rightarrow> http" where
  "failing e config call = Inl e"

section \<open>Sending and awaiting\<close>

lemma issued_send: "issued (snd (send http call w)) = issued w @ [call]"
  by (simp add: send_def)

lemma client_send: "client (snd (send http call w)) = client w"
  by (simp add: send_def)

lemma fst_send: "fst (send http call w) = http (baseClient (client w)) call"
  by (simp add: send_def)

lemma snd_await: "snd (await p rest) = snd p"
  by (simp add: await_def split: sum.split)

lemma fst_await_Inl: "fst p = Inl e \<Longrightarrow> fst (await p rest) = Inl e"
  by (simp add: await_def)

lemma fst_await_Inr: "fst p = Inr r \<Longrightarrow> fst (await p rest) = rest r"
  by (simp add: await_def)

lemma fst_await_send:
  "fst (await (send http call w) rest) =
     (case http (baseClient (client w)) call of Inl e \<Rightarrow> Inl e | Inr r \<Rightarrow> rest r)"
  by (simp add: await_def send_def split: sum.split)

section \<open>Reading options\<close>

lemma member_nullish: "nullish v \<Longrightarrow> member v k = Inl TypeError"
  by (auto simp: nullish_def)

lemma member_not_nullish: "\<not> nullish v \<Longrightarrow> \<exists>x. member v k = Inr x"
  by (cases v) (simp_all add: nullish_def)

lemma member_Inr_not_nullish: "member arg k = Inr x \<Longrightarrow> \<not> nullish arg"
  by (auto simp: nullish_def)

lemma member_error: "member v k = Inl e \<Longrightarrow> e = TypeError"
  by (cases v) simp_all

lemma default_to_own:
  "default_to (own ps k) d =
     (case map_of ps k of None \<Rightarrow> d | Some v \<Rightarrow> if v = JUndefined then d else v)"
  by (simp add: default_to_def own_def split: option.split)

text \<open>
  Whatever a conversion to a string raises is a \<^verbatim>\<open>TypeError\<close>.
\<close>

lemma to_string_error: "to_string v = Inl e \<Longrightarrow> e = TypeError"
  and join_elems_error: "join_elems vs = Inl e \<Longrightarrow> e = TypeError"
  by (induction v and vs rule: to_string_join_elems.induct)
     (auto split: if_splits sum.splits)

section \<open>What every call does\<close>

text \<open>
  A call either ends with a \<^verbatim>\<open>TypeError\<close> before it has touched anything, or it is
  one request sent and awaited.
\<close>

lemma invoke_cases:
  "invoke m http arg w = (Inl TypeError, w)
   \<or> (\<exists>call rest. invoke m http arg w = await (send http call w) rest)"
proof (cases m)
  case Projects
  then show ?thesis
    by (auto simp: projects_def Let_def split: sum.splits dest: member_error)
next
  case Project
  then show ?thesis
    by (auto simp: project_def split: sum.splits dest: member_error to_string_error)
next
  case Search
  then show ?thesis
    by (auto simp: search_def Let_def split: sum.splits dest: member_error)
next
  case ProjectRoles
  then show ?thesis
    by (auto simp: projectRoles_def split: sum.splits dest: member_error to_string_error)
next
  case UsersByGroup
  then show ?thesis
    by (auto simp: usersByGroup_def split: sum.splits dest: member_error)
next
  case Categories
  then show ?thesis by (auto simp: categories_def)
qed

text \<open>
  The requests sent earlier have no part in what a call returns.
\<close>

lemma outcome_independent_of_history:
  "client w' = client w \<Longrightarrow> fst (invoke m http arg w') = fst (invoke m http arg w)"
  by (cases m)
     (simp_all add: projects_def project_def search_def projectRoles_def usersByGroup_def
        categories_def Let_def fst_await_send split: sum.splits)

text \<open>
  When each method gets as far as its request.
\<close>

lemma projects_sends:
  assumes "\<not> nullish arg"
  shows "\<exists>call. issued (snd (projects http arg w)) = issued w @ [call]"
proof -
  from assms obtain c where "member arg ''categoryId'' = Inr c"
    using member_not_nullish by blast
  then show ?thesis by (simp add: projects_def Let_def snd_await issued_send)
qed

lemma project_sends:
  assumes "member arg ''projectKey'' = Inr pk" and "to_string pk = Inr key"
  shows "\<exists>call. issued (snd (project http arg w)) = issued w @ [call]"
  using assms by (simp add: project_def snd_await issued_send)

lemma search_sends:
  assumes "\<not> nullish arg"
  shows "\<exists>call. issued (snd (search http arg w)) = issued w @ [call]"
proof -
  from assms obtain q f where "member arg ''jql'' = Inr q" and "member arg ''fields'' = Inr f"
    using member_not_nullish by blast
  then show ?thesis by (simp add: search_def Let_def snd_await issued_send)
qed

lemma projectRoles_sends:
  assumes "member arg ''projectKey'' = Inr pk" and "to_string pk = Inr key"
    and "member arg ''role'' = Inr rl" and "to_string rl = Inr name"
  shows "\<exists>call. issued (snd (projectRoles http arg w)) = issued w @ [call]"
  using assms by (simp add: projectRoles_def snd_await issued_send)

lemma usersByGroup_sends:
  assumes "\<not> nullish arg"
  shows "\<exists>call. issued (snd (usersByGroup http arg w)) = issued w @ [call]"
proof -
  from assms obtain g where "member arg ''groupname'' = Inr g"
    using member_not_nullish by blast
  then show ?thesis by (simp add: usersByGroup_def snd_await issued_send)
qed

lemma categories_sends:
  "\<exists>call. issued (snd (categories http w)) = issued w @ [call]"
  by (simp add: categories_def snd_await issued_send)

section \<open>The constructor\<close>

text \<open>
  Claim C3. Constructing a client from an options object with \<^verbatim>\<open>host\<close>, \<^verbatim>\<open>user\<close>,
  \<^verbatim>\<open>token\<close> and an optional \<^verbatim>\<open>version\<close>, taken to be 3 when the object has none or has
  \<^verbatim>\<open>undefined\<close>, gives the HTTP client the base URL
  \<^verbatim>\<open>https://{host}.atlassian.net/rest/api/{version}\<close> and basic authentication with
  \<^verbatim>\<open>user\<close> as username and \<^verbatim>\<open>token\<close> as password, whatever the three are;
  \<^verbatim>\<open>this.version\<close> holds the version used. Here \<^verbatim>\<open>{host}\<close> and \<^verbatim>\<open>{version}\<close> are the
  strings the template literal converts the two to: a string is itself, a number its
  numeral.
\<close>

theorem constructor_configures_client:
  assumes "ver = (case map_of ps ''version'' of
                    None \<Rightarrow> JNum 3
                  | Some v \<Rightarrow> if v = JUndefined then JNum 3 else v)"
    and "to_string (own ps ''host'') = Inr h"
    and "to_string ver = Inr n"
  shows "constructor (JObj ps) =
           Inr \<lparr>version = ver,
                baseClient =
                  \<lparr>baseURL = ''https://'' @ h @ ''.atlassian.net/rest/api/'' @ n,
                   auth = \<lparr>username = own ps ''user'', password = own ps ''token''\<rparr>\<rparr>\<rparr>"
  using assms by (simp add: constructor_def Let_def default_to_own)

text \<open>
  The example of the class comment, where no version is given and the base URL ends in 3,
  and the same with version 2.
\<close>

theorem constructor_configures_client_witness:
  "constructor
     (JObj [(''host'', JStr ''yourhost''), (''user'', JStr ''jhn@doe.com''),
            (''token'', JStr ''secret'')]) =
   Inr \<lparr>version = JNum 3,
        baseClient =
          \<lparr>baseURL = ''https://yourhost.atlassian.net/rest/api/3'',
           auth = \<lparr>username = JStr ''jhn@doe.com'', password = JStr ''secret''\<rparr>\<rparr>\<rparr>
   \<and> constructor
     (JObj [(''host'', JStr ''yourhost''), (''user'', JStr ''jhn@doe.com''),
            (''token'', JStr ''secret''), (''version'', JNum 2)]) =
   Inr \<lparr>version = JNum 2,
        baseClient =
          \<lparr>baseURL = ''https://yourhost.atlassian.net/rest/api/2'',
           auth = \<lparr>username = JStr ''jhn@doe.com'', password = JStr ''secret''\<rparr>\<rparr>\<rparr>"
  using constructor_configures_client
    [of "JNum 3"
        "[(''host'', JStr ''yourhost''), (''user'', JStr ''jhn@doe.com''),
          (''token'', JStr ''secret'')]"
        "''yourhost''" "''3''"]
    constructor_configures_client
    [of "JNum 2"
        "[(''host'', JStr ''yourhost''), (''user'', JStr ''jhn@doe.com''),
          (''token'', JStr ''secret''), (''version'', JNum 2)]"
        "''yourhost''" "''2''"]
  by (simp add: own_def digits.simps)

text \<open>
  A host that has no conversion to a string, which the documented type \<^verbatim>\<open>String\<close> of
  \<^verbatim>\<open>host\<close> excludes: the template literal raises and no client is made.
\<close>

lemma constructor_unconvertible_host:
  "constructor
     (JObj [(''host'', JObj [(''toString'', JStr ''x'')]), (''user'', JStr ''jhn@doe.com''),
            (''token'', JStr ''secret'')]) = Inl TypeError"
  by (simp add: constructor_def own_def default_to_def)

section \<open>The requests of the methods\<close>

text \<open>
  Claim C4. For every options object, with \<^verbatim>\<open>categoryId\<close> taken to be 1000 when the
  object has none or has \<^verbatim>\<open>undefined\<close> and to be the caller's otherwise, \<^verbatim>\<open>projects\<close>
  sends one GET to \<^verbatim>\<open>project/search\<close> whose query parameters are exactly
  \<^verbatim>\<open>categoryId\<close> and \<^verbatim>\<open>maxResults = 200\<close>, and when the HTTP layer answers with a JSON
  object it resolves to the \<^verbatim>\<open>values\<close> property of that body. Query parameters are the
  \<^verbatim>\<open>params\<close> the client hands to the HTTP library.
\<close>

theorem projects_request:
  assumes "categoryId = (case map_of ps ''categoryId'' of
                           None \<Rightarrow> JNum 1000
                         | Some v \<Rightarrow> if v = JUndefined then JNum 1000 else v)"
    and "call = Get ''project/search''
           (JObj [(''params'', JObj [(''categoryId'', categoryId), (''maxResults'', JNum 200)])])"
  shows "issued (snd (projects http (JObj ps) w)) = issued w @ [call]
       \<and> query_params call = JObj [(''categoryId'', categoryId), (''maxResults'', JNum 200)]
       \<and> (\<forall>r body. http (baseClient (client w)) call = Inr r \<and> data r = JObj body
             \<longrightarrow> fst (projects http (JObj ps) w) = Inr (own body ''values''))"
  using assms
  by (simp add: projects_def snd_await issued_send fst_await_Inr fst_send
      config_params_def default_to_own Let_def own_def [of _ "''params''"])

text \<open>
  Once with no \<^verbatim>\<open>categoryId\<close>, once with the caller's 10001.
\<close>

theorem projects_request_witness:
  "issued (snd (projects (answering (JObj [(''values'', JArr [JStr ''P1''])])) (JObj [])
      (fresh example_jira))) =
     [Get ''project/search''
        (JObj [(''params'', JObj [(''categoryId'', JNum 1000), (''maxResults'', JNum 200)])])]
   \<and> fst (projects (answering (JObj [(''values'', JArr [JStr ''P1''])])) (JObj [])
      (fresh example_jira)) = Inr (JArr [JStr ''P1''])
   \<and> issued (snd (projects (answering (JObj [(''values'', JArr [JStr ''P2''])]))
      (JObj [(''categoryId'', JNum 10001)]) (fresh example_jira))) =
     [Get ''project/search''
        (JObj [(''params'', JObj [(''categoryId'', JNum 10001), (''maxResults'', JNum 200)])])]
   \<and> fst (projects (answering (JObj [(''values'', JArr [JStr ''P2''])]))
      (JObj [(''categoryId'', JNum 10001)]) (fresh example_jira)) = Inr (JArr [JStr ''P2''])"
  using projects_request
    [of "JNum 1000" "[]"
        "Get ''project/search''
           (JObj [(''params'', JObj [(''categoryId'', JNum 1000), (''maxResults'', JNum 200)])])"
        "answering (JObj [(''values'', JArr [JStr ''P1''])])" "fresh example_jira"]
    projects_request
    [of "JNum 10001" "[(''categoryId'', JNum 10001)]"
        "Get ''project/search''
           (JObj [(''params'', JObj [(''categoryId'', JNum 10001), (''maxResults'', JNum 200)])])"
        "answering (JObj [(''values'', JArr [JStr ''P2''])])" "fresh example_jira"]
  by (simp add: own_def answering_def fresh_def)

text \<open>
  A body that is \<^verbatim>\<open>null\<close> has no properties to read: \<^verbatim>\<open>response.data.values\<close> raises,
  and the method rejects although the request succeeded. The same holds of \<^verbatim>\<open>search\<close>,
  \<^verbatim>\<open>projectRoles\<close> and \<^verbatim>\<open>usersByGroup\<close>, which read a property of the body too.
\<close>

lemma projects_null_body:
  assumes "member options ''categoryId'' = Inr c"
    and "send http
           (Get ''project/search''
              (JObj [(''params'',
                 JObj [(''categoryId'', default_to c (JNum 1000)), (''maxResults'', JNum 200)])]))
           w = (Inr r, w')"
    and "nullish (data r)"
  shows "projects http options w = (Inl TypeError, w')"
  using assms by (simp add: projects_def await_def member_nullish)

text \<open>
  Claim C1, where the code departs from it. \<^verbatim>\<open>project\<close> sends one GET to
  \<^verbatim>\<open>project/{projectKey}\<close> and resolves to the whole body, as the claim says. But the
  object with \<^verbatim>\<open>expand\<close> is passed as the request's config itself, not under its
  \<^verbatim>\<open>params\<close> as \<^verbatim>\<open>projects\<close> and \<^verbatim>\<open>usersByGroup\<close> pass theirs: the request for the
  project \<^verbatim>\<open>ABC\<close> carries no query parameters at all.
\<close>

theorem project_expand_outside_params:
  "issued (snd (project (answering (JObj [(''key'', JStr ''ABC'')]))
      (JObj [(''projectKey'', JStr ''ABC'')]) (fresh example_jira))) =
     [Get ''project/ABC'' (JObj [(''expand'', JStr ''issueTypes,lead,description'')])]
   \<and> query_params
       (Get ''project/ABC'' (JObj [(''expand'', JStr ''issueTypes,lead,description'')])) =
     JUndefined"
  by (simp add: project_def snd_await issued_send fresh_def config_params_def own_def)

text \<open>
  The same for every options object whose \<^verbatim>\<open>projectKey\<close> the template literal
  converts, together with what \<^verbatim>\<open>project\<close> resolves to.
\<close>

lemma project_request:
  assumes "to_string (own ps ''projectKey'') = Inr key"
  shows "issued (snd (project http (JObj ps) w)) =
           issued w @ [Get (''project/'' @ key)
                         (JObj [(''expand'', JStr ''issueTypes,lead,description'')])]
       \<and> query_params (Get (''project/'' @ key)
                         (JObj [(''expand'', JStr ''issueTypes,lead,description'')])) =
           JUndefined"
  using assms by (simp add: project_def snd_await issued_send config_params_def own_def)

lemma project_resolves_to_body:
  assumes "to_string (own ps ''projectKey'') = Inr key"
    and "http (baseClient (client w))
           (Get (''project/'' @ key)
              (JObj [(''expand'', JStr ''issueTypes,lead,description'')])) = Inr r"
  shows "fst (project http (JObj ps) w) = Inr (data r)"
  using assms by (simp add: project_def fst_await_Inr fst_send)

text \<open>
  Claim C5. For every options object, with \<^verbatim>\<open>fields\<close> taken to be
  \<^verbatim>\<open>['summary', 'status', 'assignee', 'timetracking']\<close> when the object has none or has
  \<^verbatim>\<open>undefined\<close> and to be the caller's otherwise, \<^verbatim>\<open>search\<close> sends one POST to
  \<^verbatim>\<open>search\<close> whose body is exactly \<^verbatim>\<open>{jql, maxResults: 100, fields}\<close>, and when the HTTP
  layer answers with a JSON object it resolves to the \<^verbatim>\<open>issues\<close> property of that
  body.
\<close>

theorem search_request:
  assumes "q = own ps ''jql''"
    and "fs = (case map_of ps ''fields'' of
                 None \<Rightarrow> JArr [JStr ''summary'', JStr ''status'', JStr ''assignee'',
                              JStr ''timetracking'']
               | Some v \<Rightarrow>
                   if v = JUndefined
                   then JArr [JStr ''summary'', JStr ''status'', JStr ''assignee'',
                              JStr ''timetracking'']
                   else v)"
    and "call = Post ''search''
           (JObj [(''jql'', q), (''maxResults'', JNum 100), (''fields'', fs)]) JUndefined"
  shows "issued (snd (search http (JObj ps) w)) = issued w @ [call]
       \<and> (\<forall>r body. http (baseClient (client w)) call = Inr r \<and> data r = JObj body
             \<longrightarrow> fst (search http (JObj ps) w) = Inr (own body ''issues''))"
  using assms
  by (simp add: search_def snd_await issued_send fst_await_Inr fst_send default_to_own Let_def)

text \<open>
  Once with no \<^verbatim>\<open>fields\<close>, once with the caller's \<^verbatim>\<open>['summary']\<close>.
\<close>

theorem search_request_witness:
  "issued (snd (search (answering (JObj [(''issues'', JArr [JStr ''ABC-1''])]))
      (JObj [(''jql'', JStr ''project = ABC'')]) (fresh example_jira))) =
     [Post ''search''
        (JObj [(''jql'', JStr ''project = ABC''), (''maxResults'', JNum 100),
               (''fields'', JArr [JStr ''summary'', JStr ''status'', JStr ''assignee'',
                                  JStr ''timetracking''])])
        JUndefined]
   \<and> fst (search (answering (JObj [(''issues'', JArr [JStr ''ABC-1''])]))
      (JObj [(''jql'', JStr ''project = ABC'')]) (fresh example_jira)) =
     Inr (JArr [JStr ''ABC-1''])
   \<and> issued (snd (search (answering (JObj [(''issues'', JArr [JStr ''ABC-2''])]))
      (JObj [(''jql'', JStr ''project = ABC''), (''fields'', JArr [JStr ''summary''])])
      (fresh example_jira))) =
     [Post ''search''
        (JObj [(''jql'', JStr ''project = ABC''), (''maxResults'', JNum 100),
               (''fields'', JArr [JStr ''summary''])])
        JUndefined]
   \<and> fst (search (answering (JObj [(''issues'', JArr [JStr ''ABC-2''])]))
      (JObj [(''jql'', JStr ''project = ABC''), (''fields'', JArr [JStr ''summary''])])
      (fresh example_jira)) =
     Inr (JArr [JStr ''ABC-2''])"
  using search_request
    [of "JStr ''project = ABC''" "[(''jql'', JStr ''project = ABC'')]"
        "JArr [JStr ''summary'', JStr ''status'', JStr ''assignee'', JStr ''timetracking'']"
        "Post ''search''
           (JObj [(''jql'', JStr ''project = ABC''), (''maxResults'', JNum 100),
                  (''fields'', JArr [JStr ''summary'', JStr ''status'', JStr ''assignee'',
                                     JStr ''timetracking''])])
           JUndefined"
        "answering (JObj [(''issues'', JArr [JStr ''ABC-1''])])" "fresh example_jira"]
    search_request
    [of "JStr ''project = ABC''"
        "[(''jql'', JStr ''project = ABC''), (''fields'', JArr [JStr ''summary''])]"
        "JArr [JStr ''summary'']"
        "Post ''search''
           (JObj [(''jql'', JStr ''project = ABC''), (''maxResults'', JNum 100),
                  (''fields'', JArr [JStr ''summary''])])
           JUndefined"
        "answering (JObj [(''issues'', JArr [JStr ''ABC-2''])])" "fresh example_jira"]
  by (simp add: own_def answering_def fresh_def)

text \<open>
  Claim C6. For every options object whose \<^verbatim>\<open>projectKey\<close> and \<^verbatim>\<open>role\<close> the template
  literal converts to strings (a string to itself, a number to its numeral),
  \<^verbatim>\<open>projectRoles\<close> sends one GET to \<^verbatim>\<open>project/{projectKey}/role/{role}\<close>, handing the
  HTTP library no config and so no query parameters, and when the HTTP layer answers with
  a JSON object it resolves to the \<^verbatim>\<open>actors\<close> property of that body.
\<close>

theorem projectRoles_request:
  assumes "to_string (own ps ''projectKey'') = Inr key"
    and "to_string (own ps ''role'') = Inr name"
    and "call = Get (''project/'' @ key @ ''/role/'' @ name) JUndefined"
  shows "issued (snd (projectRoles http (JObj ps) w)) = issued w @ [call]
       \<and> query_params call = JUndefined
       \<and> (\<forall>r body. http (baseClient (client w)) call = Inr r \<and> data r = JObj body
             \<longrightarrow> fst (projectRoles http (JObj ps) w) = Inr (own body ''actors''))"
  using assms
  by (simp add: projectRoles_def snd_await issued_send fst_await_Inr fst_send
      config_params_def)

text \<open>
  With a role given by its number, and with one given by name.
\<close>

theorem projectRoles_request_witness:
  "issued (snd (projectRoles (answering (JObj [(''actors'', JArr [JStr ''jhn''])]))
      (JObj [(''projectKey'', JStr ''ABC''), (''role'', JNum 10002)]) (fresh example_jira))) =
     [Get ''project/ABC/role/10002'' JUndefined]
   \<and> fst (projectRoles (answering (JObj [(''actors'', JArr [JStr ''jhn''])]))
      (JObj [(''projectKey'', JStr ''ABC''), (''role'', JNum 10002)]) (fresh example_jira)) =
     Inr (JArr [JStr ''jhn''])
   \<and> issued (snd (projectRoles (answering (JObj [(''actors'', JArr [])]))
      (JObj [(''projectKey'', JStr ''XY''), (''role'', JStr ''admin'')]) (fresh example_jira))) =
     [Get ''project/XY/role/admin'' JUndefined]"
  using projectRoles_request
    [of "[(''projectKey'', JStr ''ABC''), (''role'', JNum 10002)]" "''ABC''" "''10002''"
        "Get ''project/ABC/role/10002'' JUndefined"
        "answering (JObj [(''actors'', JArr [JStr ''jhn''])])" "fresh example_jira"]
    projectRoles_request
    [of "[(''projectKey'', JStr ''XY''), (''role'', JStr ''admin'')]" "''XY''" "''admin''"
        "Get ''project/XY/role/admin'' JUndefined"
        "answering (JObj [(''actors'', JArr [])])" "fresh example_jira"]
  by (simp add: own_def answering_def fresh_def digits.simps)

text \<open>
  A role that has no conversion to a string, which the documented type \<^verbatim>\<open>String\<close> of
  \<^verbatim>\<open>role\<close> excludes: the template literal raises, and nothing is sent.
\<close>

lemma projectRoles_unconvertible_role:
  "projectRoles http
     (JObj [(''projectKey'', JStr ''ABC''), (''role'', JObj [(''toString'', JStr ''x'')])]) w =
   (Inl TypeError, w)"
  by (simp add: projectRoles_def own_def)

text \<open>
  Claim C7. For every options object \<^verbatim>\<open>usersByGroup\<close> sends one GET to
  \<^verbatim>\<open>group/member\<close> whose query parameters are exactly \<^verbatim>\<open>groupname\<close>,
  \<^verbatim>\<open>maxResults = 200\<close> and \<^verbatim>\<open>includeInactiveUsers = true\<close>, and when the HTTP layer answers
  with a JSON object it resolves to the \<^verbatim>\<open>values\<close> property of that body.
\<close>

theorem usersByGroup_request:
  assumes "call = Get ''group/member''
           (JObj [(''params'',
              JObj [(''groupname'', own ps ''groupname''), (''maxResults'', JNum 200),
                    (''includeInactiveUsers'', JBool True)])])"
  shows "issued (snd (usersByGroup http (JObj ps) w)) = issued w @ [call]
       \<and> query_params call =
           JObj [(''groupname'', own ps ''groupname''), (''maxResults'', JNum 200),
                 (''includeInactiveUsers'', JBool True)]
       \<and> (\<forall>r body. http (baseClient (client w)) call = Inr r \<and> data r = JObj body
             \<longrightarrow> fst (usersByGroup http (JObj ps) w) = Inr (own body ''values''))"
  using assms
  by (simp add: usersByGroup_def snd_await issued_send fst_await_Inr fst_send
      config_params_def own_def)

theorem usersByGroup_request_witness:
  "issued (snd (usersByGroup (answering (JObj [(''values'', JArr [JStr ''jhn''])]))
      (JObj [(''groupname'', JStr ''developers'')]) (fresh example_jira))) =
     [Get ''group/member''
        (JObj [(''params'',
           JObj [(''groupname'', JStr ''developers''), (''maxResults'', JNum 200),
                 (''includeInactiveUsers'', JBool True)])])]
   \<and> fst (usersByGroup (answering (JObj [(''values'', JArr [JStr ''jhn''])]))
      (JObj [(''groupname'', JStr ''developers'')]) (fresh example_jira)) =
     Inr (JArr [JStr ''jhn''])"
  using usersByGroup_request
    [of "Get ''group/member''
           (JObj [(''params'',
              JObj [(''groupname'', JStr ''developers''), (''maxResults'', JNum 200),
                    (''includeInactiveUsers'', JBool True)])])"
        "[(''groupname'', JStr ''developers'')]"
        "answering (JObj [(''values'', JArr [JStr ''jhn''])])" "fresh example_jira"]
  by (simp add: own_def answering_def fresh_def)

text \<open>
  Claim C2. \<^verbatim>\<open>categories\<close> sends exactly one GET to \<^verbatim>\<open>projectCategory\<close>, and when the
  HTTP layer answers, whatever the body, it resolves to \<^verbatim>\<open>undefined\<close>: the body never
  reaches the caller.
\<close>

theorem categories_discards_response:
  "issued (snd (categories http w)) = issued w @ [Get ''projectCategory'' JUndefined]
   \<and> (\<forall>r. http (baseClient (client w)) (Get ''projectCategory'' JUndefined) = Inr r
          \<longrightarrow> fst (categories http w) = Inr JUndefined)"
  by (simp add: categories_def snd_await issued_send fst_await_Inr fst_send)

theorem categories_discards_response_witness:
  "issued (snd (categories (answering (JArr [JObj [(''name'', JStr ''Internal'')]]))
      (fresh example_jira))) = [Get ''projectCategory'' JUndefined]
   \<and> fst (categories (answering (JArr [JObj [(''name'', JStr ''Internal'')]]))
      (fresh example_jira)) = Inr JUndefined"
  using categories_discards_response
    [of "answering (JArr [JObj [(''name'', JStr ''Internal'')]])" "fresh example_jira"]
  by (simp add: answering_def fresh_def)

section \<open>Failures and effects\<close>

text \<open>
  Claim C8. Whatever the method, its argument and the HTTP layer: a call that sends
  anything sends exactly one request, and if the HTTP layer rejects that request with an
  error, the call rejects with that very error. So nothing is retried, caught or replaced.
  The only other way a call goes is to send nothing and end with a \<^verbatim>\<open>TypeError\<close> of its
  own, where no request can fail.
\<close>

theorem http_failure_propagates:
  "(issued (snd (invoke m http arg w)) = issued w \<and> fst (invoke m http arg w) = Inl TypeError)
   \<or> (\<exists>call. issued (snd (invoke m http arg w)) = issued w @ [call]
         \<and> (\<forall>e. http (baseClient (client w)) call = Inl e
               \<longrightarrow> fst (invoke m http arg w) = Inl e))"
  using invoke_cases [of m http arg w]
  by (auto simp: snd_await issued_send fst_await_send)

text \<open>
  \<^verbatim>\<open>search\<close> against a layer that rejects with 500, and \<^verbatim>\<open>categories\<close> against one
  that rejects with a network failure.
\<close>

theorem http_failure_propagates_witness:
  "issued (snd (invoke Search (failing (HttpError (JNum 500)))
      (JObj [(''jql'', JStr ''project = ABC'')]) (fresh example_jira))) =
       [Post ''search''
          (JObj [(''jql'', JStr ''project = ABC''), (''maxResults'', JNum 100),
                 (''fields'', JArr [JStr ''summary'', JStr ''status'', JStr ''assignee'',
                                    JStr ''timetracking''])])
          JUndefined]
   \<and> fst (invoke Search (failing (HttpError (JNum 500)))
      (JObj [(''jql'', JStr ''project = ABC'')]) (fresh example_jira)) =
     Inl (HttpError (JNum 500))
   \<and> issued (snd (invoke Categories (failing (HttpError (JStr ''ECONNRESET''))) JUndefined
      (fresh example_jira))) = [Get ''projectCategory'' JUndefined]
   \<and> fst (invoke Categories (failing (HttpError (JStr ''ECONNRESET''))) JUndefined
      (fresh example_jira)) = Inl (HttpError (JStr ''ECONNRESET''))"
  using http_failure_propagates
    [of Search "failing (HttpError (JNum 500))" "JObj [(''jql'', JStr ''project = ABC'')]"
        "fresh example_jira"]
    http_failure_propagates
    [of Categories "failing (HttpError (JStr ''ECONNRESET''))" JUndefined "fresh example_jira"]
  by (simp add: search_def categories_def snd_await issued_send fst_await_send own_def
      default_to_def failing_def fresh_def)

text \<open>
  Claim C9 as the code has it. Every call leaves the client, that is \<^verbatim>\<open>version\<close> and
  \<^verbatim>\<open>baseClient\<close>, as it was, whether it resolves or rejects. Every call sends at most one
  request, and one that sends none rejects with a \<^verbatim>\<open>TypeError\<close>. Exactly one request is
  sent by every call of \<^verbatim>\<open>categories\<close>; by every call of \<^verbatim>\<open>projects\<close>, \<^verbatim>\<open>search\<close> or
  \<^verbatim>\<open>usersByGroup\<close> with an argument other than \<^verbatim>\<open>undefined\<close> and \<^verbatim>\<open>null\<close>; and by every
  call of \<^verbatim>\<open>project\<close> or \<^verbatim>\<open>projectRoles\<close> with such an argument whose \<^verbatim>\<open>projectKey\<close>
  (and \<^verbatim>\<open>role\<close>) the template literal converts to a string. No other state is shared: what
  a call returns is the same whatever was sent before it.
\<close>

theorem call_leaves_client_unchanged:
  "client (snd (invoke m http arg w)) = client w
   \<and> ((\<exists>call. issued (snd (invoke m http arg w)) = issued w @ [call])
        \<or> (issued (snd (invoke m http arg w)) = issued w
             \<and> fst (invoke m http arg w) = Inl TypeError))
   \<and> (m = Categories
        \<or> (m = Projects \<or> m = Search \<or> m = UsersByGroup) \<and> \<not> nullish arg
        \<or> m = Project \<and> member arg ''projectKey'' = Inr pk \<and> to_string pk = Inr key
        \<or> m = ProjectRoles \<and> member arg ''projectKey'' = Inr pk \<and> to_string pk = Inr key
             \<and> member arg ''role'' = Inr rl \<and> to_string rl = Inr name
        \<longrightarrow> (\<exists>call. issued (snd (invoke m http arg w)) = issued w @ [call]))
   \<and> (\<forall>w'::world. client w' = client w
          \<longrightarrow> fst (invoke m http arg w') = fst (invoke m http arg w))"
proof (intro conjI impI allI)
  show "client (snd (invoke m http arg w)) = client w"
    using invoke_cases [of m http arg w] by (auto simp: snd_await client_send)
next
  show "(\<exists>call. issued (snd (invoke m http arg w)) = issued w @ [call])
        \<or> (issued (snd (invoke m http arg w)) = issued w
             \<and> fst (invoke m http arg w) = Inl TypeError)"
    using invoke_cases [of m http arg w] by (auto simp: snd_await issued_send)
next
  assume "m = Categories
        \<or> (m = Projects \<or> m = Search \<or> m = UsersByGroup) \<and> \<not> nullish arg
        \<or> m = Project \<and> member arg ''projectKey'' = Inr pk \<and> to_string pk = Inr key
        \<or> m = ProjectRoles \<and> member arg ''projectKey'' = Inr pk \<and> to_string pk = Inr key
             \<and> member arg ''role'' = Inr rl \<and> to_string rl = Inr name"
  then consider "m = Categories"
    | "m = Projects" "\<not> nullish arg"
    | "m = Search" "\<not> nullish arg"
    | "m = UsersByGroup" "\<not> nullish arg"
    | "m = Project" "member arg ''projectKey'' = Inr pk" "to_string pk = Inr key"
    | "m = ProjectRoles" "member arg ''projectKey'' = Inr pk" "to_string pk = Inr key"
        "member arg ''role'' = Inr rl" "to_string rl = Inr name"
    by blast
  then show "\<exists>call. issued (snd (invoke m http arg w)) = issued w @ [call]"
  proof cases
    case 1
    then show ?thesis using categories_sends by simp
  next
    case 2
    then show ?thesis using projects_sends by simp
  next
    case 3
    then show ?thesis using search_sends by simp
  next
    case 4
    then show ?thesis using usersByGroup_sends by simp
  next
    case 5
    then show ?thesis using project_sends by simp
  next
    case 6
    then show ?thesis using projectRoles_sends by simp
  qed
next
  fix w' :: world
  assume "client w' = client w"
  then show "fst (invoke m http arg w') = fst (invoke m http arg w)"
    by (rule outcome_independent_of_history)
qed

theorem call_leaves_client_unchanged_witness:
  "client (snd (invoke ProjectRoles (answering (JObj [(''actors'', JArr [])]))
      (JObj [(''projectKey'', JStr ''ABC''), (''role'', JNum 10002)])
      (fresh example_jira))) = example_jira
   \<and> (\<exists>call. issued (snd (invoke ProjectRoles (answering (JObj [(''actors'', JArr [])]))
      (JObj [(''projectKey'', JStr ''ABC''), (''role'', JNum 10002)])
      (fresh example_jira))) = [call])
   \<and> fst (invoke ProjectRoles (answering (JObj [(''actors'', JArr [])]))
      (JObj [(''projectKey'', JStr ''ABC''), (''role'', JNum 10002)])
      \<lparr>client = example_jira, issued = [Get ''projectCategory'' JUndefined]\<rparr>) =
     fst (invoke ProjectRoles (answering (JObj [(''actors'', JArr [])]))
      (JObj [(''projectKey'', JStr ''ABC''), (''role'', JNum 10002)])
      (fresh example_jira))"
proof -
  note all = call_leaves_client_unchanged
    [of ProjectRoles "answering (JObj [(''actors'', JArr [])])"
        "JObj [(''projectKey'', JStr ''ABC''), (''role'', JNum 10002)]" "fresh example_jira"
        "JStr ''ABC''" "''ABC''" "JNum 10002" "''10002''"]
  have unchanged: "client (snd (invoke ProjectRoles (answering (JObj [(''actors'', JArr [])]))
      (JObj [(''projectKey'', JStr ''ABC''), (''role'', JNum 10002)])
      (fresh example_jira))) = example_jira"
    using all [THEN conjunct1] by (simp add: fresh_def)
  have one: "\<exists>call. issued (snd (invoke ProjectRoles (answering (JObj [(''actors'', JArr [])]))
      (JObj [(''projectKey'', JStr ''ABC''), (''role'', JNum 10002)])
      (fresh example_jira))) = [call]"
    using all [THEN conjunct2, THEN conjunct2, THEN conjunct1]
    by (simp add: fresh_def own_def digits.simps)
  have same: "fst (invoke ProjectRoles (answering (JObj [(''actors'', JArr [])]))
      (JObj [(''projectKey'', JStr ''ABC''), (''role'', JNum 10002)])
      \<lparr>client = example_jira, issued = [Get ''projectCategory'' JUndefined]\<rparr>) =
     fst (invoke ProjectRoles (answering (JObj [(''actors'', JArr [])]))
      (JObj [(''projectKey'', JStr ''ABC''), (''role'', JNum 10002)])
      (fresh example_jira))"
    using all [THEN conjunct2, THEN conjunct2, THEN conjunct2, THEN spec,
        of "\<lparr>client = example_jira, issued = [Get ''projectCategory'' JUndefined]\<rparr>"]
    by (simp add: fresh_def)
  from unchanged one same show ?thesis by blast
qed

text \<open>
  Claim C9 as stated fails: \<^verbatim>\<open>project()\<close>, called with no argument, rejects while it
  binds its parameter and sends no request.
\<close>

theorem one_request_per_call_counterexample:
  "issued (snd (invoke Project (answering (JObj [(''key'', JStr ''ABC'')])) JUndefined
      (fresh example_jira))) = []
   \<and> fst (invoke Project (answering (JObj [(''key'', JStr ''ABC'')])) JUndefined
      (fresh example_jira)) = Inl TypeError"
  by (simp add: project_def fresh_def)

text \<open>
  Claim C10. Called with no argument, each of \<^verbatim>\<open>projects\<close>, \<^verbatim>\<open>project\<close>, \<^verbatim>\<open>search\<close>,
  \<^verbatim>\<open>projectRoles\<close> and \<^verbatim>\<open>usersByGroup\<close> ends with a \<^verbatim>\<open>TypeError\<close> and has sent
  nothing; \<^verbatim>\<open>categories\<close> sends its request and resolves when the HTTP layer answers.
  The methods are \<^verbatim>\<open>async\<close>, so the \<^verbatim>\<open>TypeError\<close> reaches the caller as the rejection
  of the returned promise, which \<^verbatim>\<open>await\<close> raises.
\<close>

theorem no_argument_is_type_error:
  "(m \<noteq> Categories \<longrightarrow> invoke m http JUndefined w = (Inl TypeError, w))
   \<and> issued (snd (invoke Categories http JUndefined w)) =
       issued w @ [Get ''projectCategory'' JUndefined]
   \<and> (\<forall>r. http (baseClient (client w)) (Get ''projectCategory'' JUndefined) = Inr r
          \<longrightarrow> fst (invoke Categories http JUndefined w) = Inr JUndefined)"
  by (cases m)
     (simp_all add: projects_def project_def search_def projectRoles_def usersByGroup_def
        categories_def snd_await issued_send fst_await_Inr fst_send)

theorem no_argument_is_type_error_witness:
  "invoke Projects (answering (JObj [(''values'', JArr [])])) JUndefined (fresh example_jira) =
     (Inl TypeError, fresh example_jira)
   \<and> issued (snd (invoke Categories (answering (JObj [(''values'', JArr [])])) JUndefined
       (fresh example_jira))) = [Get ''projectCategory'' JUndefined]
   \<and> fst (invoke Categories (answering (JObj [(''values'', JArr [])])) JUndefined
       (fresh example_jira)) = Inr JUndefined"
  using no_argument_is_type_error
    [of Projects "answering (JObj [(''values'', JArr [])])" "fresh example_jira"]
  by (simp add: answering_def fresh_def)

end
